theory Spec2Isabelle
  imports Main
begin

section \<open>DocSpot: the stores and the route handlers of the backend\<close>

text \<open>
  The backend keeps three Mongoose collections (User, DoctorProfile, Appointment) and
  serves them through Express route handlers. Each handler is embedded as a function
  from the request and the database to the database after the request and the
  response that was sent.

  What the embedding fixes:
  \<^item> A collection is the list of its documents in insertion order. \<open>findOne\<close>
    returns the first match and \<open>findById\<close> is \<open>findOne\<close> on \<open>_id\<close>; saving a loaded
    document rewrites the first document with that \<open>_id\<close>, \<open>deleteOne\<close> drops the
    first match and \<open>deleteMany\<close> every match.
  \<^item> An ObjectId is a natural number. Ids in requests are well-formed ids; the ids
    that \<open>new Model(...)\<close> generates and the value of \<open>Date.now\<close> are arguments of the
    handler that needs them.
  \<^item> A string field of a request body is a \<open>string option\<close>, \<open>None\<close> for a field
    that is absent. Values of other JSON types are not modelled.
  \<^item> The string enums of the schemas (\<open>role\<close>, \<open>status\<close>, \<open>paymentStatus\<close>) are
    datatypes in the stored documents; a status string that comes from a request is
    cast against the list of the enum.
  \<^item> The schema checks that \<open>save\<close> runs are part of the model: a \<open>required\<close>
    string must be present and non-empty, an \<open>enum\<close> string must be one of the listed
    values. A failed check throws, and the handler's \<open>catch\<close> answers
    500 \<open>Server Error\<close>. A document in a collection passed these checks when it was
    inserted, so when a loaded document is saved only the fields that the handler
    assigned can fail them. Failures of the database connection, of the configuration
    and of the token signature are not modelled.
  \<^item> \<open>bcrypt.hash\<close> and \<open>bcrypt.compare\<close> are arguments of the handlers that call
    them; a signed token is represented by the payload it carries.
\<close>

subsection \<open>Documents\<close>

type_synonym oid = nat

datatype role = Customer | Doctor | Admin

datatype status = Pending | Scheduled | Completed | Cancelled

datatype paymentStatus = PaymentPending | Paid | Failed

text \<open>models/User.js; \<open>user_id\<close> is \<open>_id\<close>, \<open>user_date\<close> is \<open>date\<close>.\<close>

record user =
  user_id :: oid
  username :: string
  email :: string
  password :: string
  role :: role
  isApproved :: bool
  user_date :: nat

text \<open>models/DoctorProfile.js; \<open>profile_user\<close> is \<open>user\<close>, \<open>profile_isApproved\<close> is
  \<open>isApproved\<close>.\<close>

record doctorProfile =
  profile_id :: oid
  profile_user :: oid
  specialty :: string
  clinicName :: "string option"
  address :: "string option"
  phone :: "string option"
  profile_isApproved :: bool
  profile_date :: nat

text \<open>models/Appointment.js; \<open>appointment_id\<close> is \<open>_id\<close>, \<open>appointment_notes\<close> is
  \<open>notes\<close>.\<close>

record appointment =
  appointment_id :: oid
  customer :: oid
  doctor :: oid
  date :: string
  time :: string
  documents :: "string list"
  appointment_notes :: "string option"
  isEmergency :: bool
  status :: status
  paymentStatus :: paymentStatus
  createdAt :: nat

record store =
  users :: "user list"
  doctorProfiles :: "doctorProfile list"
  appointments :: "appointment list"

text \<open>The names the schema's enums give to the values.\<close>

fun role_name :: "role \<Rightarrow> string" where
  "role_name Customer = ''customer''"
| "role_name Doctor = ''doctor''"
| "role_name Admin = ''admin''"

fun status_name :: "status \<Rightarrow> string" where
  "status_name Pending = ''pending''"
| "status_name Scheduled = ''scheduled''"
| "status_name Completed = ''completed''"
| "status_name Cancelled = ''cancelled''"

fun paymentStatus_name :: "paymentStatus \<Rightarrow> string" where
  "paymentStatus_name PaymentPending = ''pending''"
| "paymentStatus_name Paid = ''paid''"
| "paymentStatus_name Failed = ''failed''"

text \<open>The enum validator of \<open>Appointment.status\<close>: a string outside the list is rejected.\<close>

definition cast_status :: "string \<Rightarrow> status option" where
  "cast_status s =
     (if s = ''pending'' then Some Pending
      else if s = ''scheduled'' then Some Scheduled
      else if s = ''completed'' then Some Completed
      else if s = ''cancelled'' then Some Cancelled
      else None)"

subsection \<open>Collections\<close>

definition findOne :: "('a \<Rightarrow> bool) \<Rightarrow> 'a list \<Rightarrow> 'a option" where
  "findOne P xs = find P xs"

fun updateOne :: "('a \<Rightarrow> bool) \<Rightarrow> 'a \<Rightarrow> 'a list \<Rightarrow> 'a list" where
  "updateOne P y [] = []"
| "updateOne P y (x # xs) = (if P x then y # xs else x # updateOne P y xs)"

fun deleteOne :: "('a \<Rightarrow> bool) \<Rightarrow> 'a list \<Rightarrow> 'a list" where
  "deleteOne P [] = []"
| "deleteOne P (x # xs) = (if P x then xs else x # deleteOne P xs)"

definition deleteMany :: "('a \<Rightarrow> bool) \<Rightarrow> 'a list \<Rightarrow> 'a list" where
  "deleteMany P xs = filter (\<lambda>x. \<not> P x) xs"

text \<open>\<open>doc.save()\<close> of a document that was loaded from its collection.\<close>

definition save_user :: "user \<Rightarrow> store \<Rightarrow> store" where
  "save_user u db = db\<lparr>users := updateOne (\<lambda>x. user_id x = user_id u) u (users db)\<rparr>"

definition save_profile :: "doctorProfile \<Rightarrow> store \<Rightarrow> store" where
  "save_profile p db =
     db\<lparr>doctorProfiles := updateOne (\<lambda>x. profile_id x = profile_id p) p (doctorProfiles db)\<rparr>"

definition save_appointment :: "appointment \<Rightarrow> store \<Rightarrow> store" where
  "save_appointment a db =
     db\<lparr>appointments :=
          updateOne (\<lambda>x. appointment_id x = appointment_id a) a (appointments db)\<rparr>"

subsection \<open>Responses\<close>

text \<open>The payload of the token, which the \<open>auth\<close> middleware puts in \<open>req.user\<close>.\<close>

record req_user =
  tok_id :: oid
  tok_role :: role
  tok_username :: string
  tok_isApproved :: bool

datatype body =
    Msg string
  | Text string
  | Registered req_user string role
  | LoggedIn req_user string role req_user
  | MsgAppointment string appointment
  | MsgApproved string user doctorProfile

record response =
  code :: nat
  body :: body

definition json :: "nat \<Rightarrow> body \<Rightarrow> response" where
  "json c b = \<lparr>code = c, body = b\<rparr>"

text \<open>The \<open>catch\<close> branch that every handler ends with.\<close>

definition server_error :: response where
  "server_error = \<lparr>code = 500, body = Text ''Server Error''\<rparr>"

subsection \<open>middleware/auth.js and the role gates\<close>

datatype credential = NoToken | InvalidToken | Token req_user

fun auth :: "credential \<Rightarrow> response + req_user" where
  "auth NoToken = Inl (json 401 (Msg ''No token, authorization denied''))"
| "auth InvalidToken = Inl (json 401 (Msg ''Token is not valid''))"
| "auth (Token u) = Inr u"

text \<open>A gate answers \<open>None\<close> where the source calls \<open>next()\<close>.\<close>

definition isAdmin :: "req_user \<Rightarrow> response option" where
  "isAdmin u =
     (if tok_role u = Admin then None
      else Some (json 403 (Msg ''Access denied, not an admin'')))"

definition isDoctor :: "req_user \<Rightarrow> response option" where
  "isDoctor u =
     (if tok_role u = Doctor then None
      else Some (json 403 (Msg ''Access denied, not a doctor'')))"

definition isCustomer :: "req_user \<Rightarrow> response option" where
  "isCustomer u =
     (if tok_role u = Customer \<or> tok_role u = Admin then None
      else Some (json 403 (Msg ''Access denied, not a customer'')))"

text \<open>\<open>router.METHOD(path, auth, gate, handler)\<close>.\<close>

definition route ::
  "credential \<Rightarrow> (req_user \<Rightarrow> response option) \<Rightarrow> (req_user \<Rightarrow> store \<Rightarrow> store \<times> response)
     \<Rightarrow> store \<Rightarrow> store \<times> response" where
  "route cred gate handler db =
     (case auth cred of
        Inl r \<Rightarrow> (db, r)
      | Inr u \<Rightarrow> (case gate u of Some r \<Rightarrow> (db, r) | None \<Rightarrow> handler u db))"

subsection \<open>routes/auth.js\<close>

text \<open>\<open>String.prototype.endsWith\<close>.\<close>

definition endsWith :: "string \<Rightarrow> string \<Rightarrow> bool" where
  "endsWith s t = (length t \<le> length s \<and> drop (length s - length t) s = t)"

definition token_payload :: "user \<Rightarrow> req_user" where
  "token_payload u =
     \<lparr>tok_id = user_id u, tok_role = role u, tok_username = username u,
      tok_isApproved = isApproved u\<rparr>"

text \<open>
  \<open>POST api/auth/register\<close>. The steps that can throw, in the order of the source:
  \<open>email.endsWith\<close> on an absent email, \<open>bcrypt.hash\<close> on an absent password, and
  \<open>user.save()\<close> when a required string (username, email, password) is absent or empty.
  The profile of a doctor has its two required fields set by the handler itself.
\<close>

definition post_register ::
  "(string \<Rightarrow> string) \<Rightarrow> nat \<Rightarrow> oid \<Rightarrow> oid
     \<Rightarrow> string option \<Rightarrow> string option \<Rightarrow> string option \<Rightarrow> store \<Rightarrow> store \<times> response" where
  "post_register hash now newUserId newProfileId username' email' password' db =
     (case findOne (\<lambda>x. Some (email x) = email' \<or> Some (username x) = username') (users db) of
        Some _ \<Rightarrow> (db, json 400 (Msg ''User already exists''))
      | None \<Rightarrow>
         (case email' of
            None \<Rightarrow> (db, server_error)
          | Some e \<Rightarrow>
             let r = (if endsWith e ''@chetan.doctor'' then Doctor else Customer) in
             (case password' of
                None \<Rightarrow> (db, server_error)
              | Some pw \<Rightarrow>
                 (case username' of
                    None \<Rightarrow> (db, server_error)
                  | Some n \<Rightarrow>
                     let u = \<lparr>user_id = newUserId, username = n, email = e,
                              password = hash pw, role = r,
                              isApproved = (if r = Customer \<or> r = Admin then True else False),
                              user_date = now\<rparr>
                     in
                     if n = [] \<or> e = [] \<or> hash pw = [] then (db, server_error)
                     else
                       let db1 = db\<lparr>users := users db @ [u]\<rparr>;
                           db2 = (if r = Doctor
                                  then db1\<lparr>doctorProfiles := doctorProfiles db1 @
                                         [\<lparr>profile_id = newProfileId, profile_user = user_id u,
                                           specialty = ''Not specified'', clinicName = None,
                                           address = None, phone = None,
                                           profile_isApproved = False, profile_date = now\<rparr>]\<rparr>
                                  else db1)
                       in (db2, json 200
                                  (Registered (token_payload u) ''Registration successful!''
                                     (role u)))))))"

text \<open>
  \<open>POST api/auth/login\<close>. \<open>bcrypt.compare\<close> throws on an absent password.
\<close>

definition post_login ::
  "(string \<Rightarrow> string \<Rightarrow> bool) \<Rightarrow> string option \<Rightarrow> string option \<Rightarrow> store
     \<Rightarrow> store \<times> response" where
  "post_login compare email' password' db =
     (case findOne (\<lambda>x. Some (email x) = email') (users db) of
        None \<Rightarrow> (db, json 400 (Msg ''Invalid Credentials''))
      | Some u \<Rightarrow>
         (case password' of
            None \<Rightarrow> (db, server_error)
          | Some pw \<Rightarrow>
             if \<not> compare pw (password u) then (db, json 400 (Msg ''Invalid Credentials''))
             else (db, json 200
                         (LoggedIn (token_payload u) ''Login successful!'' (role u)
                            (token_payload u)))))"

subsection \<open>routes/admin.js\<close>

text \<open>\<open>PUT api/admin/doctors/:user_id/approve\<close>.\<close>

definition put_doctors_approve :: "credential \<Rightarrow> oid \<Rightarrow> store \<Rightarrow> store \<times> response" where
  "put_doctors_approve cred user_id' db =
     route cred isAdmin (\<lambda>caller db.
       (case findOne (\<lambda>x. user_id x = user_id') (users db) of
          None \<Rightarrow> (db, json 404 (Msg ''Doctor not found or not a doctor role''))
        | Some u \<Rightarrow>
           if role u \<noteq> Doctor
           then (db, json 404 (Msg ''Doctor not found or not a doctor role''))
           else
             (case findOne (\<lambda>x. profile_user x = user_id') (doctorProfiles db) of
                None \<Rightarrow> (db, json 404 (Msg ''Doctor profile not found''))
              | Some p \<Rightarrow>
                 let u' = u\<lparr>isApproved := True\<rparr>;
                     p' = p\<lparr>profile_isApproved := True\<rparr>
                 in (save_profile p' (save_user u' db),
                     json 200 (MsgApproved ''Doctor approved successfully'' u' p'))))) db"

text \<open>\<open>DELETE api/admin/users/:user_id\<close>.\<close>

definition delete_users :: "credential \<Rightarrow> oid \<Rightarrow> store \<Rightarrow> store \<times> response" where
  "delete_users cred user_id' db =
     route cred isAdmin (\<lambda>caller db.
       (case findOne (\<lambda>x. user_id x = user_id') (users db) of
          None \<Rightarrow> (db, json 404 (Msg ''User not found''))
        | Some userToDelete \<Rightarrow>
           if role userToDelete = Admin
           then (db, json 403 (Msg ''Cannot delete an admin user.''))
           else if user_id userToDelete = tok_id caller
           then (db, json 403 (Msg ''You cannot delete your own account.''))
           else
             let db1 =
                   (if role userToDelete = Doctor
                    then db\<lparr>doctorProfiles :=
                               deleteOne (\<lambda>x. profile_user x = user_id userToDelete)
                                 (doctorProfiles db),
                            appointments :=
                               deleteMany (\<lambda>x. doctor x = user_id userToDelete)
                                 (appointments db)\<rparr>
                    else if role userToDelete = Customer
                    then db\<lparr>appointments :=
                               deleteMany (\<lambda>x. customer x = user_id userToDelete)
                                 (appointments db)\<rparr>
                    else db)
             in (db1\<lparr>users := deleteOne (\<lambda>x. user_id x = user_id userToDelete) (users db1)\<rparr>,
                 json 200 (Msg ''User and associated data removed'')))) db"

subsection \<open>routes/customer.js\<close>

text \<open>
  \<open>POST api/customer/appointments\<close>. \<open>date\<close> and \<open>time\<close> are required strings of the
  schema, so \<open>newAppointment.save()\<close> throws when one of them is absent or empty;
  \<open>documents\<close> defaults to the empty array.
\<close>

definition post_appointments ::
  "credential \<Rightarrow> nat \<Rightarrow> oid \<Rightarrow> oid \<Rightarrow> string option \<Rightarrow> string option \<Rightarrow> string list option
     \<Rightarrow> string option \<Rightarrow> bool option \<Rightarrow> store \<Rightarrow> store \<times> response" where
  "post_appointments cred now newId doctorId date' time' documents' notes' isEmergency' db =
     route cred isCustomer (\<lambda>caller db.
       (case findOne (\<lambda>x. profile_user x = doctorId) (doctorProfiles db) of
          None \<Rightarrow> (db, json 400 (Msg ''Doctor not found or not yet approved.''))
        | Some doctorProfile \<Rightarrow>
           if \<not> profile_isApproved doctorProfile
           then (db, json 400 (Msg ''Doctor not found or not yet approved.''))
           else
             (case (date', time') of
                (Some d, Some t) \<Rightarrow>
                  if d = [] \<or> t = [] then (db, server_error)
                  else
                    let newAppointment =
                          \<lparr>appointment_id = newId, customer = tok_id caller, doctor = doctorId,
                           date = d, time = t,
                           documents = (case documents' of None \<Rightarrow> [] | Some ds \<Rightarrow> ds),
                           appointment_notes = notes',
                           isEmergency = (case isEmergency' of None \<Rightarrow> False | Some b \<Rightarrow> b),
                           status = Pending, paymentStatus = PaymentPending,
                           createdAt = now\<rparr>
                    in (db\<lparr>appointments := appointments db @ [newAppointment]\<rparr>,
                        json 201
                          (MsgAppointment
                             ''Appointment requested successfully! Proceed to \"My Appointments\" to pay.''
                             newAppointment))
              | _ \<Rightarrow> (db, server_error)))) db"

text \<open>\<open>PUT api/customer/appointments/:id/cancel\<close>.\<close>

definition put_appointments_cancel :: "credential \<Rightarrow> oid \<Rightarrow> store \<Rightarrow> store \<times> response" where
  "put_appointments_cancel cred id' db =
     route cred isCustomer (\<lambda>caller db.
       (case findOne (\<lambda>x. appointment_id x = id') (appointments db) of
          None \<Rightarrow> (db, json 404 (Msg ''Appointment not found''))
        | Some appointment \<Rightarrow>
           if customer appointment \<noteq> tok_id caller
           then (db, json 401 (Msg ''Not authorized to cancel this appointment''))
           else if status appointment = Completed
           then (db, json 400 (Msg ''Cannot cancel a completed appointment.''))
           else if status appointment = Cancelled
           then (db, json 400 (Msg ''Appointment is already cancelled.''))
           else
             let appointment' = appointment\<lparr>status := Cancelled\<rparr>
             in (save_appointment appointment' db,
                 json 200 (MsgAppointment ''Appointment cancelled successfully'' appointment'))))
       db"

text \<open>
  \<open>POST api/customer/appointments/:id/pay\<close>. The payment is simulated:
  \<open>paymentSuccessful\<close> is the constant of the source, and the handler keeps the branch
  for a failed payment. An absent \<open>paymentMethod\<close> prints as \<open>undefined\<close> in the message.
\<close>

definition paymentSuccessful :: bool where
  "paymentSuccessful = True"

definition post_appointments_pay ::
  "credential \<Rightarrow> oid \<Rightarrow> string option \<Rightarrow> store \<Rightarrow> store \<times> response" where
  "post_appointments_pay cred id' paymentMethod db =
     route cred isCustomer (\<lambda>caller db.
       (case findOne (\<lambda>x. appointment_id x = id') (appointments db) of
          None \<Rightarrow> (db, json 404 (Msg ''Appointment not found''))
        | Some appointment \<Rightarrow>
           if customer appointment \<noteq> tok_id caller
           then (db, json 401 (Msg ''Not authorized to pay for this appointment''))
           else if status appointment \<noteq> Pending \<and> status appointment \<noteq> Scheduled
           then (db, json 400
                       (Msg (''Cannot pay for an appointment with status: '' @
                             status_name (status appointment))))
           else if paymentStatus appointment = Paid
           then (db, json 400 (Msg ''Payment has already been made for this appointment.''))
           else if paymentSuccessful
           then
             let a1 = appointment\<lparr>paymentStatus := Paid\<rparr>;
                 a2 = (if status a1 = Pending then a1\<lparr>status := Scheduled\<rparr> else a1)
             in (save_appointment a2 db,
                 json 200
                   (MsgAppointment
                      (''Payment successful via '' @
                       (case paymentMethod of None \<Rightarrow> ''undefined'' | Some m \<Rightarrow> m) @
                       ''! Appointment is now '' @ status_name (status a2) @ ''.'')
                      a2))
           else
             (save_appointment (appointment\<lparr>paymentStatus := Failed\<rparr>) db,
              json 400 (Msg ''Payment failed. Please try again.'')))) db"

subsection \<open>routes/doctor.js\<close>

text \<open>
  \<open>PUT api/doctor/appointments/:id/status\<close>. A field of the body is assigned when it
  is truthy, that is present and not the empty string. \<open>appointment.save()\<close> then
  checks the new status against the enum of the schema and throws on any other string.
\<close>

definition truthy :: "string option \<Rightarrow> bool" where
  "truthy x = (case x of None \<Rightarrow> False | Some s \<Rightarrow> s \<noteq> [])"

definition assign :: "string option \<Rightarrow> string \<Rightarrow> string" where
  "assign x old = (case x of None \<Rightarrow> old | Some s \<Rightarrow> if s \<noteq> [] then s else old)"

definition assign_status :: "string option \<Rightarrow> status \<Rightarrow> status option" where
  "assign_status x old =
     (case x of None \<Rightarrow> Some old | Some s \<Rightarrow> if s \<noteq> [] then cast_status s else Some old)"

definition put_appointments_status ::
  "credential \<Rightarrow> oid \<Rightarrow> string option \<Rightarrow> string option \<Rightarrow> string option \<Rightarrow> store
     \<Rightarrow> store \<times> response" where
  "put_appointments_status cred appointmentId status' date' time' db =
     route cred isDoctor (\<lambda>caller db.
       (case findOne (\<lambda>x. appointment_id x = appointmentId) (appointments db) of
          None \<Rightarrow> (db, json 404 (Msg ''Appointment not found''))
        | Some appointment \<Rightarrow>
           if doctor appointment \<noteq> tok_id caller
           then (db, json 401 (Msg ''Not authorized to update this appointment''))
           else
             (case assign_status status' (status appointment) of
                None \<Rightarrow> (db, server_error)
              | Some s \<Rightarrow>
                 let appointment' =
                       appointment\<lparr>status := s,
                                   date := assign date' (date appointment),
                                   time := assign time' (time appointment)\<rparr>
                 in (save_appointment appointment' db,
                     json 200 (MsgAppointment ''Appointment updated successfully''
                                 appointment'))))) db"

subsection \<open>server.js: the mounted routes\<close>

text \<open>
  A request names the route and carries what the handler reads: the credential of the
  \<open>x-auth-token\<close> header, the id of the path, the fields of the body, and for the
  routes that create documents the generated ids and the time. \<open>run\<close> serves a list of
  requests one after the other.
\<close>

datatype request =
    Register nat oid oid "string option" "string option" "string option"
  | Login "string option" "string option"
  | Approve credential oid
  | DeleteUser credential oid
  | Book credential nat oid oid "string option" "string option" "string list option"
      "string option" "bool option"
  | Cancel credential oid
  | Pay credential oid "string option"
  | UpdateStatus credential oid "string option" "string option" "string option"

fun serve ::
  "(string \<Rightarrow> string) \<Rightarrow> (string \<Rightarrow> string \<Rightarrow> bool) \<Rightarrow> request \<Rightarrow> store
     \<Rightarrow> store \<times> response" where
  "serve hash compare (Register now uid pid n e pw) db = post_register hash now uid pid n e pw db"
| "serve hash compare (Login e pw) db = post_login compare e pw db"
| "serve hash compare (Approve cred t) db = put_doctors_approve cred t db"
| "serve hash compare (DeleteUser cred t) db = delete_users cred t db"
| "serve hash compare (Book cred now newId doctorId d t docs n e) db =
     post_appointments cred now newId doctorId d t docs n e db"
| "serve hash compare (Cancel cred i) db = put_appointments_cancel cred i db"
| "serve hash compare (Pay cred i m) db = post_appointments_pay cred i m db"
| "serve hash compare (UpdateStatus cred i s d t) db = put_appointments_status cred i s d t db"

fun run ::
  "(string \<Rightarrow> string) \<Rightarrow> (string \<Rightarrow> string \<Rightarrow> bool) \<Rightarrow> request list \<Rightarrow> store \<Rightarrow> store" where
  "run hash compare [] db = db"
| "run hash compare (r # rs) db = run hash compare rs (fst (serve hash compare r db))"

subsection \<open>Invariants of the store\<close>

text \<open>No appointment records a failed payment.\<close>

definition never_failed :: "store \<Rightarrow> bool" where
  "never_failed db = (\<forall>a \<in> set (appointments db). paymentStatus a \<noteq> Failed)"

text \<open>
  The unique indexes: \<open>_id\<close> in every collection, \<open>username\<close> and \<open>email\<close> of User
  (\<open>unique: true\<close> in models/User.js) and \<open>user\<close> of DoctorProfile (\<open>unique: true\<close> in
  models/DoctorProfile.js).
\<close>

definition unique_indexes :: "store \<Rightarrow> bool" where
  "unique_indexes db =
     (distinct (map user_id (users db)) \<and> distinct (map username (users db)) \<and>
      distinct (map email (users db)) \<and>
      distinct (map profile_id (doctorProfiles db)) \<and>
      distinct (map profile_user (doctorProfiles db)) \<and>
      distinct (map appointment_id (appointments db)))"

text \<open>The ids that a request brings for new documents are not in use.\<close>

fun fresh_ids :: "request \<Rightarrow> store \<Rightarrow> bool" where
  "fresh_ids (Register now uid pid n e pw) db =
     (uid \<notin> user_id ` set (users db) \<and> uid \<notin> profile_user ` set (doctorProfiles db) \<and>
      pid \<notin> profile_id ` set (doctorProfiles db))"
| "fresh_ids (Book cred now newId doctorId d t docs n e) db =
     (newId \<notin> appointment_id ` set (appointments db))"
| "fresh_ids _ db = True"

subsection \<open>A small clinic\<close>

text \<open>
  One admin, an approved doctor with her profile, a customer, and a doctor who has
  registered and waits for approval. \<open>clinic\<close> has one appointment, booked and not yet
  paid; \<open>clinic_opening\<close> is the same store before any booking.
\<close>

definition clinic_hash :: "string \<Rightarrow> string" where
  "clinic_hash pw = CHR ''#'' # pw"

definition clinic_compare :: "string \<Rightarrow> string \<Rightarrow> bool" where
  "clinic_compare pw h = (h = CHR ''#'' # pw)"

definition clinic_admin :: req_user where
  "clinic_admin =
     \<lparr>tok_id = 0, tok_role = Admin, tok_username = ''root'', tok_isApproved = True\<rparr>"

definition clinic_doctor :: req_user where
  "clinic_doctor =
     \<lparr>tok_id = 1, tok_role = Doctor, tok_username = ''asha'', tok_isApproved = True\<rparr>"

definition clinic_other_doctor :: req_user where
  "clinic_other_doctor =
     \<lparr>tok_id = 5, tok_role = Doctor, tok_username = ''ravi'', tok_isApproved = False\<rparr>"

definition clinic_customer :: req_user where
  "clinic_customer =
     \<lparr>tok_id = 3, tok_role = Customer, tok_username = ''mina'', tok_isApproved = True\<rparr>"

definition clinic_asha_profile :: doctorProfile where
  "clinic_asha_profile =
     \<lparr>profile_id = 2, profile_user = 1, specialty = ''Cardiology'', clinicName = None,
      address = None, phone = None, profile_isApproved = True, profile_date = 1\<rparr>"

definition clinic_ravi :: user where
  "clinic_ravi =
     \<lparr>user_id = 5, username = ''ravi'', email = ''ravi@chetan.doctor'', password = ''#v'',
      role = Doctor, isApproved = False, user_date = 5\<rparr>"

definition clinic_ravi_profile :: doctorProfile where
  "clinic_ravi_profile =
     \<lparr>profile_id = 6, profile_user = 5, specialty = ''Not specified'', clinicName = None,
      address = None, phone = None, profile_isApproved = False, profile_date = 5\<rparr>"

definition clinic_visit :: appointment where
  "clinic_visit =
     \<lparr>appointment_id = 9, customer = 3, doctor = 1, date = ''2025-06-24'', time = ''10:00'',
      documents = [], appointment_notes = None, isEmergency = False, status = Pending,
      paymentStatus = PaymentPending, createdAt = 7\<rparr>"

definition clinic_opening :: store where
  "clinic_opening =
     \<lparr>users =
        [\<lparr>user_id = 0, username = ''root'', email = ''root@docspot.org'', password = ''#r'',
          role = Admin, isApproved = True, user_date = 0\<rparr>,
         \<lparr>user_id = 1, username = ''asha'', email = ''asha@chetan.doctor'', password = ''#a'',
          role = Doctor, isApproved = True, user_date = 1\<rparr>,
         \<lparr>user_id = 3, username = ''mina'', email = ''mina@mail.org'', password = ''#m'',
          role = Customer, isApproved = True, user_date = 3\<rparr>,
         clinic_ravi],
      doctorProfiles = [clinic_asha_profile, clinic_ravi_profile],
      appointments = []\<rparr>"

definition clinic :: store where
  "clinic = clinic_opening\<lparr>appointments := [clinic_visit]\<rparr>"

definition clinic_dev :: user where
  "clinic_dev =
     \<lparr>user_id = 11, username = ''dev'', email = ''dev@chetan.doctor'', password = ''#pw'',
      role = Doctor, isApproved = False, user_date = 8\<rparr>"

definition clinic_dev_profile :: doctorProfile where
  "clinic_dev_profile =
     \<lparr>profile_id = 12, profile_user = 11, specialty = ''Not specified'', clinicName = None,
      address = None, phone = None, profile_isApproved = False, profile_date = 8\<rparr>"

section \<open>Properties of the handlers\<close>

subsection \<open>Collections and gates\<close>

lemmas clinic_defs =
  clinic_def clinic_opening_def clinic_visit_def clinic_ravi_def clinic_ravi_profile_def
  clinic_asha_profile_def clinic_admin_def clinic_doctor_def clinic_other_doctor_def
  clinic_customer_def clinic_dev_def clinic_dev_profile_def clinic_hash_def clinic_compare_def

lemma find_updateOne:
  "find P xs = Some x \<Longrightarrow> Q x \<Longrightarrow> P y \<Longrightarrow> find P (updateOne Q y xs) = Some y"
  by (induction xs) (auto split: if_splits)

lemma findOne_updateOne:
  "findOne P xs = Some x \<Longrightarrow> Q x \<Longrightarrow> P y \<Longrightarrow> findOne P (updateOne Q y xs) = Some y"
  unfolding findOne_def by (rule find_updateOne)

lemma findOne_Some_holds: "findOne P xs = Some x \<Longrightarrow> P x"
  unfolding findOne_def by (auto simp: find_Some_iff)

lemma findOne_in_set: "findOne P xs = Some x \<Longrightarrow> x \<in> set xs"
  unfolding findOne_def by (auto simp: find_Some_iff)

lemma findOne_None_iff: "findOne P xs = None \<longleftrightarrow> (\<forall>x \<in> set xs. \<not> P x)"
  unfolding findOne_def by (auto simp: find_None_iff)

lemma set_updateOne: "set (updateOne P y xs) \<subseteq> insert y (set xs)"
  by (induction xs) auto

lemma map_updateOne_found:
  "findOne P xs = Some x \<Longrightarrow> k y = k x \<Longrightarrow> map k (updateOne P y xs) = map k xs"
  unfolding findOne_def by (induction xs) (auto split: if_splits)

lemma find_by_distinct_key:
  "x \<in> set xs \<Longrightarrow> distinct (map f xs) \<Longrightarrow> findOne (\<lambda>z. f z = f x) xs = Some x"
  unfolding findOne_def by (induction xs) (auto simp: image_iff)

text \<open>Under a unique index on the key, \<open>deleteOne\<close> by that key leaves no match behind.\<close>

lemma deleteOne_distinct:
  "distinct (map k xs) \<Longrightarrow> deleteOne (\<lambda>x. k x = v) xs = filter (\<lambda>x. k x \<noteq> v) xs"
proof (induction xs)
  case Nil
  then show ?case by simp
next
  case (Cons x xs)
  show ?case
  proof (cases "k x = v")
    case True
    with Cons.prems have "v \<notin> k ` set xs" by simp
    then have "\<forall>y \<in> set xs. k y \<noteq> v" by blast
    then have "filter (\<lambda>x. k x \<noteq> v) xs = xs" by (simp add: filter_id_conv)
    with True show ?thesis by simp
  next
    case False
    with Cons show ?thesis by simp
  qed
qed

lemma findOne_save_appointment:
  assumes "findOne (\<lambda>x. appointment_id x = i) (appointments db) = Some a"
      and "appointment_id a' = i"
  shows "findOne (\<lambda>x. appointment_id x = i) (appointments (save_appointment a' db)) = Some a'"
proof -
  have "appointment_id a = i" using assms(1) by (rule findOne_Some_holds)
  with assms show ?thesis
    by (simp add: save_appointment_def findOne_updateOne [where x = a])
qed

lemma route_Token:
  "route (Token u) gate handler db =
     (case gate u of Some r \<Rightarrow> (db, r) | None \<Rightarrow> handler u db)"
  by (simp add: route_def)

lemma status_update_same: "status a = s \<Longrightarrow> a\<lparr>status := s\<rparr> = (a::appointment)"
  by auto

lemma truthy_assign: "\<not> truthy x \<Longrightarrow> assign x old = old"
  by (auto simp: truthy_def assign_def split: option.splits)

lemma assign_Some: "v \<noteq> [] \<Longrightarrow> assign (Some v) old = v"
  by (simp add: assign_def)

lemma truthy_assign_status: "\<not> truthy x \<Longrightarrow> assign_status x old = Some old"
  by (auto simp: truthy_def assign_status_def split: option.splits)

lemma assign_status_Some: "v \<noteq> [] \<Longrightarrow> assign_status (Some v) old = cast_status v"
  by (simp add: assign_status_def)

text \<open>\<open>endsWith s t\<close> holds exactly when \<open>s\<close> is some prefix followed by \<open>t\<close>.\<close>

lemma endsWith_iff: "endsWith s t \<longleftrightarrow> (\<exists>p. s = p @ t)"
proof
  assume "endsWith s t"
  then have "s = take (length s - length t) s @ t"
    by (metis append_take_drop_id endsWith_def)
  then show "\<exists>p. s = p @ t" ..
next
  assume "\<exists>p. s = p @ t"
  then show "endsWith s t" by (auto simp: endsWith_def)
qed

subsection \<open>Registration\<close>

text \<open>
  C1. Whenever a registration creates a user, exactly one user is appended and its role
  is doctor if and only if the submitted email ends with \<open>@chetan.doctor\<close>, and customer
  otherwise. A doctor is created with \<open>isApproved = false\<close> together with exactly one
  DoctorProfile for that user, with \<open>isApproved = false\<close> and specialty
  \<open>Not specified\<close>; a customer is created with \<open>isApproved = true\<close> and no DoctorProfile.
\<close>

theorem register_role_rule:
  assumes created:
    "users (fst (post_register hash now newUserId newProfileId n e pw db)) \<noteq> users db"
  shows "\<exists>u em. e = Some em \<and>
           users (fst (post_register hash now newUserId newProfileId n e pw db)) =
             users db @ [u] \<and>
           user_id u = newUserId \<and> email u = em \<and>
           (role u = Doctor \<longleftrightarrow> endsWith em ''@chetan.doctor'') \<and>
           (role u \<noteq> Doctor \<longrightarrow> role u = Customer) \<and>
           (role u = Doctor \<longrightarrow>
              \<not> isApproved u \<and>
              (\<exists>p. doctorProfiles (fst (post_register hash now newUserId newProfileId n e pw db)) =
                     doctorProfiles db @ [p] \<and>
                   profile_user p = newUserId \<and> \<not> profile_isApproved p \<and>
                   specialty p = ''Not specified'')) \<and>
           (role u = Customer \<longrightarrow>
              isApproved u \<and>
              doctorProfiles (fst (post_register hash now newUserId newProfileId n e pw db)) =
                doctorProfiles db)"
  using created
  by (auto simp: post_register_def Let_def split: option.splits if_splits)

theorem register_role_rule_witness:
  "users (fst (post_register clinic_hash 8 11 12 (Some ''dev'') (Some ''dev@chetan.doctor'')
                 (Some ''pw'') clinic)) \<noteq> users clinic \<and>
   users (fst (post_register clinic_hash 8 11 12 (Some ''dev'') (Some ''dev@chetan.doctor'')
                 (Some ''pw'') clinic)) = users clinic @ [clinic_dev] \<and>
   endsWith ''dev@chetan.doctor'' ''@chetan.doctor'' \<and>
   role clinic_dev = Doctor \<and> \<not> isApproved clinic_dev \<and>
   doctorProfiles (fst (post_register clinic_hash 8 11 12 (Some ''dev'')
                          (Some ''dev@chetan.doctor'') (Some ''pw'') clinic)) =
     doctorProfiles clinic @ [clinic_dev_profile]"
proof -
  let ?db' = "fst (post_register clinic_hash 8 11 12 (Some ''dev'') (Some ''dev@chetan.doctor'')
                     (Some ''pw'') clinic)"
  have ends: "endsWith ''dev@chetan.doctor'' ''@chetan.doctor''"
    by (simp add: endsWith_def)
  have users': "users ?db' = users clinic @ [clinic_dev]"
    by (simp add: post_register_def findOne_def ends clinic_defs Let_def)
  have profiles': "doctorProfiles ?db' = doctorProfiles clinic @ [clinic_dev_profile]"
    by (simp add: post_register_def findOne_def ends clinic_defs Let_def)
  have created: "users ?db' \<noteq> users clinic"
    by (simp add: users')
  obtain u where u: "users ?db' = users clinic @ [u]"
    and doc: "role u = Doctor \<longleftrightarrow> endsWith ''dev@chetan.doctor'' ''@chetan.doctor''"
    and unapproved: "role u = Doctor \<longrightarrow> \<not> isApproved u"
    using register_role_rule [OF created] by auto
  from u users' have "u = clinic_dev" by simp
  with doc unapproved ends users' profiles' created show ?thesis by simp
qed

text \<open>
  A registration does create a user: when no user has the email or the username, both
  are non-empty and the hash of the password is non-empty, the answer is 200 and one
  user is appended.
\<close>

lemma register_succeeds:
  assumes "findOne (\<lambda>x. Some (email x) = Some e \<or> Some (username x) = Some n) (users db) = None"
      and "n \<noteq> []" and "e \<noteq> []" and "hash pw \<noteq> []"
  shows "code (snd (post_register hash now newUserId newProfileId (Some n) (Some e) (Some pw) db))
           = 200 \<and>
         length (users (fst (post_register hash now newUserId newProfileId (Some n) (Some e)
                               (Some pw) db))) = Suc (length (users db))"
  using assms by (simp add: post_register_def Let_def json_def)

subsection \<open>Login\<close>

text \<open>
  A login with an email that no user has is answered with status 400, which is
  BadRequest and not Unauthorized (401).
\<close>

theorem login_status_counterexample:
  "post_login clinic_compare (Some ''ghost@mail.org'') (Some ''secret'') clinic =
     (clinic, \<lparr>code = 400, body = Msg ''Invalid Credentials''\<rparr>) \<and>
   code (snd (post_login clinic_compare (Some ''ghost@mail.org'') (Some ''secret'') clinic)) \<noteq>
     401"
  by (simp add: post_login_def findOne_def clinic_defs json_def)

text \<open>
  C7, with the status the handler sends. Over the same store, a login with an email
  that is bound to no user and a login with the email of an existing user and a
  password whose comparison fails both leave the store as it is and send the same
  response: status 400 with the message \<open>Invalid Credentials\<close>. The response does not
  tell a missing user from a wrong password.
\<close>

theorem login_failures_identical:
  assumes unbound: "findOne (\<lambda>x. Some (email x) = Some e1) (users db) = None"
      and bound: "findOne (\<lambda>x. Some (email x) = Some e2) (users db) = Some u"
      and wrong: "\<not> compare pw2 (password u)"
  shows "post_login compare (Some e1) pw1 db = (db, json 400 (Msg ''Invalid Credentials'')) \<and>
         post_login compare (Some e2) (Some pw2) db =
           (db, json 400 (Msg ''Invalid Credentials''))"
  using assms by (simp add: post_login_def)

theorem login_failures_identical_witness:
  "findOne (\<lambda>x. Some (email x) = Some ''ghost@mail.org'') (users clinic) = None \<and>
   findOne (\<lambda>x. Some (email x) = Some ''ravi@chetan.doctor'') (users clinic) =
     Some clinic_ravi \<and>
   \<not> clinic_compare ''guess'' (password clinic_ravi) \<and>
   post_login clinic_compare (Some ''ghost@mail.org'') (Some ''guess'') clinic =
     (clinic, json 400 (Msg ''Invalid Credentials'')) \<and>
   post_login clinic_compare (Some ''ravi@chetan.doctor'') (Some ''guess'') clinic =
     (clinic, json 400 (Msg ''Invalid Credentials''))"
proof -
  have h1: "findOne (\<lambda>x. Some (email x) = Some ''ghost@mail.org'') (users clinic) = None"
    by (simp add: findOne_def clinic_defs)
  have h2: "findOne (\<lambda>x. Some (email x) = Some ''ravi@chetan.doctor'') (users clinic) =
              Some clinic_ravi"
    by (simp add: findOne_def clinic_defs)
  have h3: "\<not> clinic_compare ''guess'' (password clinic_ravi)"
    by (simp add: clinic_defs)
  show ?thesis
    using login_failures_identical
            [where compare = clinic_compare and db = clinic and ?e1.0 = "''ghost@mail.org''"
               and ?e2.0 = "''ravi@chetan.doctor''" and u = clinic_ravi
               and ?pw2.0 = "''guess''" and ?pw1.0 = "Some ''guess''"]
          h1 h2 h3
    by blast
qed

subsection \<open>Approval of a doctor\<close>

text \<open>
  C3. For an admin and a target user id: if the target user exists with role doctor and
  has a DoctorProfile, the operation succeeds and sets \<open>isApproved\<close> to true on the user
  and on the profile; if the user is missing, has another role, or the profile is
  missing, the operation fails with 404 (NotFound) and the store is unchanged.
\<close>

theorem approve_doctor:
  assumes caller: "tok_role c = Admin"
  shows "(\<forall>u p. findOne (\<lambda>x. user_id x = t) (users db) = Some u \<and> role u = Doctor \<and>
                findOne (\<lambda>x. profile_user x = t) (doctorProfiles db) = Some p \<longrightarrow>
            code (snd (put_doctors_approve (Token c) t db)) = 200 \<and>
            fst (put_doctors_approve (Token c) t db) =
              save_profile (p\<lparr>profile_isApproved := True\<rparr>)
                (save_user (u\<lparr>isApproved := True\<rparr>) db) \<and>
            findOne (\<lambda>x. user_id x = t) (users (fst (put_doctors_approve (Token c) t db))) =
              Some (u\<lparr>isApproved := True\<rparr>) \<and>
            findOne (\<lambda>x. profile_user x = t)
                (doctorProfiles (fst (put_doctors_approve (Token c) t db))) =
              Some (p\<lparr>profile_isApproved := True\<rparr>)) \<and>
         (findOne (\<lambda>x. user_id x = t) (users db) = None \<or>
          (\<exists>u. findOne (\<lambda>x. user_id x = t) (users db) = Some u \<and> role u \<noteq> Doctor) \<or>
          findOne (\<lambda>x. profile_user x = t) (doctorProfiles db) = None \<longrightarrow>
            code (snd (put_doctors_approve (Token c) t db)) = 404 \<and>
            fst (put_doctors_approve (Token c) t db) = db)"
proof -
  have gate: "isAdmin c = None" using caller by (simp add: isAdmin_def)
  have ok: "code (snd (put_doctors_approve (Token c) t db)) = 200 \<and>
            fst (put_doctors_approve (Token c) t db) =
              save_profile (p\<lparr>profile_isApproved := True\<rparr>)
                (save_user (u\<lparr>isApproved := True\<rparr>) db) \<and>
            findOne (\<lambda>x. user_id x = t) (users (fst (put_doctors_approve (Token c) t db))) =
              Some (u\<lparr>isApproved := True\<rparr>) \<and>
            findOne (\<lambda>x. profile_user x = t)
                (doctorProfiles (fst (put_doctors_approve (Token c) t db))) =
              Some (p\<lparr>profile_isApproved := True\<rparr>)"
    if fu: "findOne (\<lambda>x. user_id x = t) (users db) = Some u" and ru: "role u = Doctor"
       and fp: "findOne (\<lambda>x. profile_user x = t) (doctorProfiles db) = Some p" for u p
  proof -
    let ?u' = "u\<lparr>isApproved := True\<rparr>" and ?p' = "p\<lparr>profile_isApproved := True\<rparr>"
    have res: "put_doctors_approve (Token c) t db =
                 (save_profile ?p' (save_user ?u' db),
                  json 200 (MsgApproved ''Doctor approved successfully'' ?u' ?p'))"
      using fu ru fp by (simp add: put_doctors_approve_def route_Token gate Let_def)
    have uid: "user_id u = t" using fu by (rule findOne_Some_holds)
    have pu: "profile_user p = t" using fp by (rule findOne_Some_holds)
    have "findOne (\<lambda>x. user_id x = t)
            (updateOne (\<lambda>x. user_id x = user_id ?u') ?u' (users db)) = Some ?u'"
      using fu uid by (intro findOne_updateOne [where x = u]) simp_all
    then have users': "findOne (\<lambda>x. user_id x = t)
                         (users (save_profile ?p' (save_user ?u' db))) = Some ?u'"
      by (simp add: save_profile_def save_user_def)
    have "findOne (\<lambda>x. profile_user x = t)
            (updateOne (\<lambda>x. profile_id x = profile_id ?p') ?p' (doctorProfiles db)) = Some ?p'"
      using fp pu by (intro findOne_updateOne [where x = p]) simp_all
    then have profiles': "findOne (\<lambda>x. profile_user x = t)
                            (doctorProfiles (save_profile ?p' (save_user ?u' db))) = Some ?p'"
      by (simp add: save_profile_def save_user_def)
    show ?thesis using users' profiles' by (simp add: res json_def)
  qed
  have missing: "code (snd (put_doctors_approve (Token c) t db)) = 404 \<and>
                 fst (put_doctors_approve (Token c) t db) = db"
    if "findOne (\<lambda>x. user_id x = t) (users db) = None \<or>
        (\<exists>u. findOne (\<lambda>x. user_id x = t) (users db) = Some u \<and> role u \<noteq> Doctor) \<or>
        findOne (\<lambda>x. profile_user x = t) (doctorProfiles db) = None"
    using that
    by (auto simp: put_doctors_approve_def route_Token gate json_def split: option.splits)
  show ?thesis using ok missing by blast
qed

theorem approve_doctor_witness:
  "tok_role clinic_admin = Admin \<and>
   findOne (\<lambda>x. user_id x = 5) (users clinic) = Some clinic_ravi \<and>
   role clinic_ravi = Doctor \<and>
   findOne (\<lambda>x. profile_user x = 5) (doctorProfiles clinic) = Some clinic_ravi_profile \<and>
   code (snd (put_doctors_approve (Token clinic_admin) 5 clinic)) = 200 \<and>
   findOne (\<lambda>x. user_id x = 5) (users (fst (put_doctors_approve (Token clinic_admin) 5 clinic))) =
     Some (clinic_ravi\<lparr>isApproved := True\<rparr>) \<and>
   findOne (\<lambda>x. profile_user x = 5)
       (doctorProfiles (fst (put_doctors_approve (Token clinic_admin) 5 clinic))) =
     Some (clinic_ravi_profile\<lparr>profile_isApproved := True\<rparr>) \<and>
   findOne (\<lambda>x. user_id x = 4) (users clinic) = None \<and>
   code (snd (put_doctors_approve (Token clinic_admin) 4 clinic)) = 404 \<and>
   fst (put_doctors_approve (Token clinic_admin) 4 clinic) = clinic"
proof -
  have h1: "tok_role clinic_admin = Admin" by (simp add: clinic_admin_def)
  have h2: "findOne (\<lambda>x. user_id x = 5) (users clinic) = Some clinic_ravi"
    by (simp add: findOne_def clinic_defs)
  have h3: "role clinic_ravi = Doctor" by (simp add: clinic_ravi_def)
  have h4: "findOne (\<lambda>x. profile_user x = 5) (doctorProfiles clinic) = Some clinic_ravi_profile"
    by (simp add: findOne_def clinic_defs)
  have h5: "findOne (\<lambda>x. user_id x = 4) (users clinic) = None"
    by (simp add: findOne_def clinic_defs)
  show ?thesis
    using approve_doctor [OF h1, of 5 clinic] approve_doctor [OF h1, of 4 clinic] h1 h2 h3 h4 h5
    by blast
qed

subsection \<open>Deletion of a user\<close>

text \<open>
  C6. For an admin and an existing target user: if the target is an admin or is the
  caller, the operation fails with 403 (Forbidden) and the store is unchanged;
  otherwise it succeeds, the user document found under the id is deleted, for a doctor
  the profile found for that user is deleted and every appointment whose doctor is the
  target, for a customer every appointment whose customer is the target. With the
  unique index on \<open>_id\<close> no user with the target's id is left, and with the unique
  index on the \<open>user\<close> of a profile no profile of the doctor is left. Every other
  document stays, in its place.
\<close>

theorem delete_user_cascade:
  assumes caller: "tok_role c = Admin"
      and found: "findOne (\<lambda>x. user_id x = t) (users db) = Some u"
  shows "(role u = Admin \<or> t = tok_id c \<longrightarrow>
            code (snd (delete_users (Token c) t db)) = 403 \<and>
            fst (delete_users (Token c) t db) = db) \<and>
         (role u \<noteq> Admin \<and> t \<noteq> tok_id c \<longrightarrow>
            code (snd (delete_users (Token c) t db)) = 200 \<and>
            users (fst (delete_users (Token c) t db)) =
              deleteOne (\<lambda>x. user_id x = t) (users db) \<and>
            (distinct (map user_id (users db)) \<longrightarrow>
               users (fst (delete_users (Token c) t db)) =
                 filter (\<lambda>x. user_id x \<noteq> t) (users db)) \<and>
            (role u = Doctor \<longrightarrow>
               doctorProfiles (fst (delete_users (Token c) t db)) =
                 deleteOne (\<lambda>x. profile_user x = t) (doctorProfiles db) \<and>
               (distinct (map profile_user (doctorProfiles db)) \<longrightarrow>
                  doctorProfiles (fst (delete_users (Token c) t db)) =
                    filter (\<lambda>x. profile_user x \<noteq> t) (doctorProfiles db)) \<and>
               appointments (fst (delete_users (Token c) t db)) =
                 filter (\<lambda>x. doctor x \<noteq> t) (appointments db)) \<and>
            (role u = Customer \<longrightarrow>
               doctorProfiles (fst (delete_users (Token c) t db)) = doctorProfiles db \<and>
               appointments (fst (delete_users (Token c) t db)) =
                 filter (\<lambda>x. customer x \<noteq> t) (appointments db)))"
proof -
  have gate: "isAdmin c = None" using caller by (simp add: isAdmin_def)
  have uid: "user_id u = t" using found by (rule findOne_Some_holds)
  have del_user:
    "distinct (map user_id (users db)) \<Longrightarrow>
     deleteOne (\<lambda>x. user_id x = t) (users db) = filter (\<lambda>x. user_id x \<noteq> t) (users db)"
    by (rule deleteOne_distinct)
  have del_profile:
    "distinct (map profile_user (doctorProfiles db)) \<Longrightarrow>
     deleteOne (\<lambda>x. profile_user x = t) (doctorProfiles db) =
       filter (\<lambda>x. profile_user x \<noteq> t) (doctorProfiles db)"
    by (rule deleteOne_distinct)
  have refused: "role u = Admin \<or> t = tok_id c \<Longrightarrow>
                 code (snd (delete_users (Token c) t db)) = 403 \<and>
                 fst (delete_users (Token c) t db) = db"
    using found uid by (auto simp: delete_users_def route_Token gate json_def)
  have res: "fst (delete_users (Token c) t db) =
               (if role u = Doctor
                then db\<lparr>doctorProfiles := deleteOne (\<lambda>x. profile_user x = t) (doctorProfiles db),
                        appointments := deleteMany (\<lambda>x. doctor x = t) (appointments db),
                        users := deleteOne (\<lambda>x. user_id x = t) (users db)\<rparr>
                else db\<lparr>appointments := deleteMany (\<lambda>x. customer x = t) (appointments db),
                        users := deleteOne (\<lambda>x. user_id x = t) (users db)\<rparr>) \<and>
             code (snd (delete_users (Token c) t db)) = 200"
    if "role u \<noteq> Admin" "t \<noteq> tok_id c"
    using that found uid
    by (cases "role u") (simp_all add: delete_users_def route_Token gate json_def Let_def)
  show ?thesis
    using refused res del_user del_profile
    by (auto simp: deleteMany_def)
qed

theorem delete_user_cascade_witness:
  "tok_role clinic_admin = Admin \<and>
   findOne (\<lambda>x. user_id x = 1) (users clinic) =
     Some \<lparr>user_id = 1, username = ''asha'', email = ''asha@chetan.doctor'', password = ''#a'',
           role = Doctor, isApproved = True, user_date = 1\<rparr> \<and>
   distinct (map user_id (users clinic)) \<and>
   distinct (map profile_user (doctorProfiles clinic)) \<and>
   1 \<noteq> tok_id clinic_admin \<and>
   code (snd (delete_users (Token clinic_admin) 1 clinic)) = 200 \<and>
   map user_id (users (fst (delete_users (Token clinic_admin) 1 clinic))) = [0, 3, 5] \<and>
   doctorProfiles (fst (delete_users (Token clinic_admin) 1 clinic)) = [clinic_ravi_profile] \<and>
   appointments (fst (delete_users (Token clinic_admin) 1 clinic)) = []"
proof -
  let ?asha = "\<lparr>user_id = 1, username = ''asha'', email = ''asha@chetan.doctor'',
                 password = ''#a'', role = Doctor, isApproved = True, user_date = 1\<rparr>"
  have h1: "tok_role clinic_admin = Admin" by (simp add: clinic_admin_def)
  have h2: "findOne (\<lambda>x. user_id x = 1) (users clinic) = Some ?asha"
    by (simp add: findOne_def clinic_defs)
  have h3: "distinct (map user_id (users clinic))"
    by (simp add: clinic_defs)
  have h4: "distinct (map profile_user (doctorProfiles clinic))"
    by (simp add: clinic_defs)
  have h5: "role ?asha \<noteq> Admin \<and> 1 \<noteq> tok_id clinic_admin \<and> role ?asha = Doctor"
    by (simp add: clinic_admin_def)
  have "code (snd (delete_users (Token clinic_admin) 1 clinic)) = 200 \<and>
        users (fst (delete_users (Token clinic_admin) 1 clinic)) =
          filter (\<lambda>x. user_id x \<noteq> 1) (users clinic) \<and>
        doctorProfiles (fst (delete_users (Token clinic_admin) 1 clinic)) =
          filter (\<lambda>x. profile_user x \<noteq> 1) (doctorProfiles clinic) \<and>
        appointments (fst (delete_users (Token clinic_admin) 1 clinic)) =
          filter (\<lambda>x. doctor x \<noteq> 1) (appointments clinic)"
    using delete_user_cascade [OF h1 h2] h3 h4 h5 by blast
  then show ?thesis
    using h1 h2 h3 h4 h5 by (simp add: clinic_defs)
qed

subsection \<open>Booking\<close>

text \<open>
  A booking with an approved doctor and without a date: the required check of the
  schema rejects the new appointment, the answer is 500 and nothing is created.
\<close>

theorem book_missing_date_counterexample:
  "doctorProfiles clinic ! 0 =
     \<lparr>profile_id = 2, profile_user = 1, specialty = ''Cardiology'', clinicName = None,
      address = None, phone = None, profile_isApproved = True, profile_date = 1\<rparr> \<and>
   post_appointments (Token clinic_customer) 8 10 1 None (Some ''10:00'') None None None clinic =
     (clinic, \<lparr>code = 500, body = Text ''Server Error''\<rparr>)"
  by (simp add: post_appointments_def route_def isCustomer_def findOne_def clinic_defs
                server_error_def)

text \<open>
  C4, with the required fields. For a booking by a customer (or an admin, whom the gate
  lets through): if the target doctor has no DoctorProfile or the profile is not
  approved, the operation fails with 400 (BadRequest) and the store is unchanged; if
  the profile exists and is approved and the request carries a non-empty date and a
  non-empty time, exactly one appointment is appended, with status pending and payment
  status pending, the caller as customer and the target as doctor; if the profile is
  approved and the date or the time is absent or empty, the answer is 500 and the store
  is unchanged.
\<close>

theorem book_appointment:
  assumes caller: "tok_role u = Customer \<or> tok_role u = Admin"
  shows "(findOne (\<lambda>x. profile_user x = doctorId) (doctorProfiles db) = None \<or>
          (\<exists>p. findOne (\<lambda>x. profile_user x = doctorId) (doctorProfiles db) = Some p \<and>
               \<not> profile_isApproved p) \<longrightarrow>
            code (snd (post_appointments (Token u) now newId doctorId d t docs n e db)) = 400 \<and>
            fst (post_appointments (Token u) now newId doctorId d t docs n e db) = db) \<and>
         (\<forall>p dv tv.
            findOne (\<lambda>x. profile_user x = doctorId) (doctorProfiles db) = Some p \<and>
            profile_isApproved p \<and> d = Some dv \<and> dv \<noteq> [] \<and> t = Some tv \<and> tv \<noteq> [] \<longrightarrow>
              code (snd (post_appointments (Token u) now newId doctorId d t docs n e db)) = 201 \<and>
              fst (post_appointments (Token u) now newId doctorId d t docs n e db) =
                db\<lparr>appointments := appointments db @
                     [\<lparr>appointment_id = newId, customer = tok_id u, doctor = doctorId,
                       date = dv, time = tv,
                       documents = (case docs of None \<Rightarrow> [] | Some ds \<Rightarrow> ds),
                       appointment_notes = n,
                       isEmergency = (case e of None \<Rightarrow> False | Some b \<Rightarrow> b),
                       status = Pending, paymentStatus = PaymentPending,
                       createdAt = now\<rparr>]\<rparr>) \<and>
         (\<forall>p. findOne (\<lambda>x. profile_user x = doctorId) (doctorProfiles db) = Some p \<and>
              profile_isApproved p \<and> (\<not> truthy d \<or> \<not> truthy t) \<longrightarrow>
              post_appointments (Token u) now newId doctorId d t docs n e db =
                (db, server_error))"
proof -
  have gate: "isCustomer u = None" using caller by (auto simp: isCustomer_def)
  have refused:
    "findOne (\<lambda>x. profile_user x = doctorId) (doctorProfiles db) = None \<or>
     (\<exists>p. findOne (\<lambda>x. profile_user x = doctorId) (doctorProfiles db) = Some p \<and>
          \<not> profile_isApproved p) \<Longrightarrow>
     code (snd (post_appointments (Token u) now newId doctorId d t docs n e db)) = 400 \<and>
     fst (post_appointments (Token u) now newId doctorId d t docs n e db) = db"
    by (auto simp: post_appointments_def route_Token gate json_def)
  have booked:
    "code (snd (post_appointments (Token u) now newId doctorId d t docs n e db)) = 201 \<and>
     fst (post_appointments (Token u) now newId doctorId d t docs n e db) =
       db\<lparr>appointments := appointments db @
            [\<lparr>appointment_id = newId, customer = tok_id u, doctor = doctorId,
              date = dv, time = tv,
              documents = (case docs of None \<Rightarrow> [] | Some ds \<Rightarrow> ds),
              appointment_notes = n,
              isEmergency = (case e of None \<Rightarrow> False | Some b \<Rightarrow> b),
              status = Pending, paymentStatus = PaymentPending,
              createdAt = now\<rparr>]\<rparr>"
    if "findOne (\<lambda>x. profile_user x = doctorId) (doctorProfiles db) = Some p"
       "profile_isApproved p" "d = Some dv" "dv \<noteq> []" "t = Some tv" "tv \<noteq> []" for p dv tv
    using that by (simp add: post_appointments_def route_Token gate json_def Let_def)
  have invalid:
    "post_appointments (Token u) now newId doctorId d t docs n e db = (db, server_error)"
    if "findOne (\<lambda>x. profile_user x = doctorId) (doctorProfiles db) = Some p"
       "profile_isApproved p" "\<not> truthy d \<or> \<not> truthy t" for p
    using that
    by (auto simp: post_appointments_def route_Token gate truthy_def split: option.splits)
  show ?thesis using refused booked invalid by blast
qed

theorem book_appointment_witness:
  "(tok_role clinic_customer = Customer \<or> tok_role clinic_customer = Admin) \<and>
   findOne (\<lambda>x. profile_user x = 5) (doctorProfiles clinic_opening) =
     Some clinic_ravi_profile \<and>
   \<not> profile_isApproved clinic_ravi_profile \<and>
   code (snd (post_appointments (Token clinic_customer) 7 9 5 (Some ''2025-06-24'')
                (Some ''10:00'') None None None clinic_opening)) = 400 \<and>
   fst (post_appointments (Token clinic_customer) 7 9 5 (Some ''2025-06-24'')
          (Some ''10:00'') None None None clinic_opening) = clinic_opening \<and>
   findOne (\<lambda>x. profile_user x = 1) (doctorProfiles clinic_opening) =
     Some clinic_asha_profile \<and>
   profile_isApproved clinic_asha_profile \<and>
   code (snd (post_appointments (Token clinic_customer) 7 9 1 (Some ''2025-06-24'')
                (Some ''10:00'') None None None clinic_opening)) = 201 \<and>
   fst (post_appointments (Token clinic_customer) 7 9 1 (Some ''2025-06-24'')
          (Some ''10:00'') None None None clinic_opening) = clinic \<and>
   \<not> truthy (Some []) \<and>
   post_appointments (Token clinic_customer) 7 9 1 (Some []) (Some ''10:00'') None None None
       clinic_opening = (clinic_opening, server_error)"
proof -
  have h1: "tok_role clinic_customer = Customer \<or> tok_role clinic_customer = Admin"
    by (simp add: clinic_customer_def)
  have h2: "findOne (\<lambda>x. profile_user x = 5) (doctorProfiles clinic_opening) =
              Some clinic_ravi_profile"
    by (simp add: findOne_def clinic_defs)
  have h3: "\<not> profile_isApproved clinic_ravi_profile"
    by (simp add: clinic_ravi_profile_def)
  have h4: "findOne (\<lambda>x. profile_user x = 1) (doctorProfiles clinic_opening) =
              Some clinic_asha_profile"
    by (simp add: findOne_def clinic_defs)
  have h5: "profile_isApproved clinic_asha_profile"
    by (simp add: clinic_asha_profile_def)
  have h6: "\<not> truthy (Some [])" by (simp add: truthy_def)
  have refused:
    "code (snd (post_appointments (Token clinic_customer) 7 9 5 (Some ''2025-06-24'')
                  (Some ''10:00'') None None None clinic_opening)) = 400 \<and>
     fst (post_appointments (Token clinic_customer) 7 9 5 (Some ''2025-06-24'')
            (Some ''10:00'') None None None clinic_opening) = clinic_opening"
    using book_appointment [OF h1, where doctorId = 5 and db = clinic_opening and now = 7
                              and newId = 9 and d = "Some ''2025-06-24''"
                              and t = "Some ''10:00''" and docs = None and n = None
                              and e = None] h2 h3
    by blast
  have "code (snd (post_appointments (Token clinic_customer) 7 9 1 (Some ''2025-06-24'')
                     (Some ''10:00'') None None None clinic_opening)) = 201 \<and>
        fst (post_appointments (Token clinic_customer) 7 9 1 (Some ''2025-06-24'')
               (Some ''10:00'') None None None clinic_opening) =
          clinic_opening\<lparr>appointments := appointments clinic_opening @
             [\<lparr>appointment_id = 9, customer = tok_id clinic_customer, doctor = 1,
               date = ''2025-06-24'', time = ''10:00'',
               documents = (case None of None \<Rightarrow> [] | Some ds \<Rightarrow> ds),
               appointment_notes = None,
               isEmergency = (case None of None \<Rightarrow> False | Some b \<Rightarrow> b),
               status = Pending, paymentStatus = PaymentPending, createdAt = 7\<rparr>]\<rparr>"
    using book_appointment [OF h1, where doctorId = 1 and db = clinic_opening and now = 7
                              and newId = 9 and d = "Some ''2025-06-24''"
                              and t = "Some ''10:00''" and docs = None and n = None
                              and e = None] h4 h5
    by blast
  then have booked:
    "code (snd (post_appointments (Token clinic_customer) 7 9 1 (Some ''2025-06-24'')
                  (Some ''10:00'') None None None clinic_opening)) = 201 \<and>
     fst (post_appointments (Token clinic_customer) 7 9 1 (Some ''2025-06-24'')
            (Some ''10:00'') None None None clinic_opening) = clinic"
    by (simp add: clinic_defs)
  have invalid:
    "post_appointments (Token clinic_customer) 7 9 1 (Some []) (Some ''10:00'') None None None
       clinic_opening = (clinic_opening, server_error)"
    using book_appointment [OF h1, where doctorId = 1 and db = clinic_opening and now = 7
                              and newId = 9 and d = "Some []"
                              and t = "Some ''10:00''" and docs = None and n = None
                              and e = None] h4 h5 h6
    by blast
  show ?thesis
    using h1 h2 h3 h4 h5 h6 refused booked invalid by blast
qed

subsection \<open>Payment\<close>

text \<open>
  C2. For a pay operation by the owner of an existing appointment: if the status is
  neither pending nor scheduled, or the payment status is already paid, the operation
  fails with 400 (BadRequest) and the store is unchanged; otherwise it succeeds, the
  payment status becomes paid and the status becomes scheduled (a pending appointment
  is promoted, a scheduled one stays scheduled), and no other field changes.
\<close>

theorem pay_by_owner:
  assumes caller: "tok_role u = Customer \<or> tok_role u = Admin"
      and found: "findOne (\<lambda>x. appointment_id x = i) (appointments db) = Some a"
      and owner: "customer a = tok_id u"
  shows "((status a \<noteq> Pending \<and> status a \<noteq> Scheduled) \<or> paymentStatus a = Paid \<longrightarrow>
            code (snd (post_appointments_pay (Token u) i m db)) = 400 \<and>
            fst (post_appointments_pay (Token u) i m db) = db) \<and>
         ((status a = Pending \<or> status a = Scheduled) \<and> paymentStatus a \<noteq> Paid \<longrightarrow>
            code (snd (post_appointments_pay (Token u) i m db)) = 200 \<and>
            fst (post_appointments_pay (Token u) i m db) =
              save_appointment (a\<lparr>paymentStatus := Paid, status := Scheduled\<rparr>) db \<and>
            findOne (\<lambda>x. appointment_id x = i)
                (appointments (fst (post_appointments_pay (Token u) i m db))) =
              Some (a\<lparr>paymentStatus := Paid, status := Scheduled\<rparr>))"
proof -
  let ?a' = "a\<lparr>paymentStatus := Paid, status := Scheduled\<rparr>"
  have gate: "isCustomer u = None" using caller by (auto simp: isCustomer_def)
  have aid: "appointment_id a = i" using found by (rule findOne_Some_holds)
  have upd: "findOne (\<lambda>x. appointment_id x = i) (appointments (save_appointment ?a' db)) =
               Some ?a'"
    using found aid by (intro findOne_save_appointment) simp_all
  have refused: "(status a \<noteq> Pending \<and> status a \<noteq> Scheduled) \<or> paymentStatus a = Paid \<Longrightarrow>
                 code (snd (post_appointments_pay (Token u) i m db)) = 400 \<and>
                 fst (post_appointments_pay (Token u) i m db) = db"
    using found owner
    by (auto simp: post_appointments_pay_def route_Token gate json_def)
  have accepted: "fst (post_appointments_pay (Token u) i m db) = save_appointment ?a' db \<and>
                  code (snd (post_appointments_pay (Token u) i m db)) = 200"
    if ok: "status a = Pending \<or> status a = Scheduled" "paymentStatus a \<noteq> Paid"
  proof (cases "status a = Pending")
    case True
    then show ?thesis
      using found owner ok
      by (simp add: post_appointments_pay_def route_Token gate json_def
                    paymentSuccessful_def Let_def)
  next
    case False
    then have "status a = Scheduled" using ok by simp
    then have eq: "?a' = a\<lparr>paymentStatus := Paid\<rparr>"
      by (simp add: status_update_same)
    show ?thesis
      unfolding eq using found owner ok False
      by (simp add: post_appointments_pay_def route_Token gate json_def
                    paymentSuccessful_def Let_def)
  qed
  show ?thesis
    using refused accepted upd by simp
qed

theorem pay_by_owner_witness:
  "(tok_role clinic_customer = Customer \<or> tok_role clinic_customer = Admin) \<and>
   findOne (\<lambda>x. appointment_id x = 9) (appointments clinic) = Some clinic_visit \<and>
   customer clinic_visit = tok_id clinic_customer \<and>
   (status clinic_visit = Pending \<or> status clinic_visit = Scheduled) \<and>
   paymentStatus clinic_visit \<noteq> Paid \<and>
   code (snd (post_appointments_pay (Token clinic_customer) 9 (Some ''upi'') clinic)) = 200 \<and>
   findOne (\<lambda>x. appointment_id x = 9)
     (appointments (fst (post_appointments_pay (Token clinic_customer) 9 (Some ''upi'') clinic))) =
   Some (clinic_visit\<lparr>paymentStatus := Paid, status := Scheduled\<rparr>)"
proof -
  have h1: "tok_role clinic_customer = Customer \<or> tok_role clinic_customer = Admin"
    by (simp add: clinic_customer_def)
  have h2: "findOne (\<lambda>x. appointment_id x = 9) (appointments clinic) = Some clinic_visit"
    by (simp add: findOne_def clinic_defs)
  have h3: "customer clinic_visit = tok_id clinic_customer"
    by (simp add: clinic_visit_def clinic_customer_def)
  have h4: "(status clinic_visit = Pending \<or> status clinic_visit = Scheduled) \<and>
            paymentStatus clinic_visit \<noteq> Paid"
    by (simp add: clinic_visit_def)
  show ?thesis
    using pay_by_owner [OF h1 h2 h3, of "Some ''upi''"] h1 h2 h3 h4 by blast
qed

subsection \<open>Cancellation\<close>

text \<open>
  C5. For a cancel operation by the owner of an existing appointment: if the status is
  completed or cancelled, the operation fails with 400 (BadRequest) and the store is
  unchanged; for every other status it succeeds and sets the status to cancelled,
  whatever the payment status is. A second cancel of the same appointment, run on the
  store the first one left, always fails with 400 and changes nothing.
\<close>

theorem cancel_by_owner:
  assumes caller: "tok_role u = Customer \<or> tok_role u = Admin"
      and found: "findOne (\<lambda>x. appointment_id x = i) (appointments db) = Some a"
      and owner: "customer a = tok_id u"
  shows "(status a = Completed \<or> status a = Cancelled \<longrightarrow>
            code (snd (put_appointments_cancel (Token u) i db)) = 400 \<and>
            fst (put_appointments_cancel (Token u) i db) = db) \<and>
         (status a \<noteq> Completed \<and> status a \<noteq> Cancelled \<longrightarrow>
            code (snd (put_appointments_cancel (Token u) i db)) = 200 \<and>
            fst (put_appointments_cancel (Token u) i db) =
              save_appointment (a\<lparr>status := Cancelled\<rparr>) db \<and>
            findOne (\<lambda>x. appointment_id x = i)
                (appointments (fst (put_appointments_cancel (Token u) i db))) =
              Some (a\<lparr>status := Cancelled\<rparr>)) \<and>
         code (snd (put_appointments_cancel (Token u) i
                      (fst (put_appointments_cancel (Token u) i db)))) = 400 \<and>
         fst (put_appointments_cancel (Token u) i
                (fst (put_appointments_cancel (Token u) i db))) =
           fst (put_appointments_cancel (Token u) i db)"
proof -
  let ?a' = "a\<lparr>status := Cancelled\<rparr>"
  let ?db' = "fst (put_appointments_cancel (Token u) i db)"
  have gate: "isCustomer u = None" using caller by (auto simp: isCustomer_def)
  have aid: "appointment_id a = i" using found by (rule findOne_Some_holds)
  have upd: "findOne (\<lambda>x. appointment_id x = i) (appointments (save_appointment ?a' db)) =
               Some ?a'"
    using found aid by (intro findOne_save_appointment) simp_all
  have refused: "code (snd (put_appointments_cancel (Token u) i db')) = 400 \<and>
                 fst (put_appointments_cancel (Token u) i db') = db'"
    if "findOne (\<lambda>x. appointment_id x = i) (appointments db') = Some b"
       "customer b = tok_id u" "status b = Completed \<or> status b = Cancelled" for db' b
    using that by (auto simp: put_appointments_cancel_def route_Token gate json_def)
  have accepted: "code (snd (put_appointments_cancel (Token u) i db)) = 200 \<and>
                  ?db' = save_appointment ?a' db"
    if "status a \<noteq> Completed" "status a \<noteq> Cancelled"
    using that found owner
    by (simp add: put_appointments_cancel_def route_Token gate json_def Let_def)
  have first: "status a = Completed \<or> status a = Cancelled \<longrightarrow>
                 code (snd (put_appointments_cancel (Token u) i db)) = 400 \<and> ?db' = db"
    using refused [OF found owner] by blast
  have second: "code (snd (put_appointments_cancel (Token u) i ?db')) = 400 \<and>
                fst (put_appointments_cancel (Token u) i ?db') = ?db'"
  proof (cases "status a = Completed \<or> status a = Cancelled")
    case True
    with first have "?db' = db" by blast
    with refused [OF found owner True] show ?thesis by simp
  next
    case False
    with accepted have eq: "?db' = save_appointment ?a' db" by blast
    have "findOne (\<lambda>x. appointment_id x = i) (appointments ?db') = Some ?a'"
      unfolding eq by (rule upd)
    moreover have "customer ?a' = tok_id u" using owner by simp
    moreover have "status ?a' = Completed \<or> status ?a' = Cancelled" by simp
    ultimately show ?thesis by (rule refused)
  qed
  show ?thesis
    using first accepted upd second by simp
qed

theorem cancel_by_owner_witness:
  "(tok_role clinic_customer = Customer \<or> tok_role clinic_customer = Admin) \<and>
   findOne (\<lambda>x. appointment_id x = 9) (appointments clinic) = Some clinic_visit \<and>
   customer clinic_visit = tok_id clinic_customer \<and>
   status clinic_visit \<noteq> Completed \<and> status clinic_visit \<noteq> Cancelled \<and>
   code (snd (put_appointments_cancel (Token clinic_customer) 9 clinic)) = 200 \<and>
   findOne (\<lambda>x. appointment_id x = 9)
     (appointments (fst (put_appointments_cancel (Token clinic_customer) 9 clinic))) =
   Some (clinic_visit\<lparr>status := Cancelled\<rparr>) \<and>
   code (snd (put_appointments_cancel (Token clinic_customer) 9
                (fst (put_appointments_cancel (Token clinic_customer) 9 clinic)))) = 400"
proof -
  have h1: "tok_role clinic_customer = Customer \<or> tok_role clinic_customer = Admin"
    by (simp add: clinic_customer_def)
  have h2: "findOne (\<lambda>x. appointment_id x = 9) (appointments clinic) = Some clinic_visit"
    by (simp add: findOne_def clinic_defs)
  have h3: "customer clinic_visit = tok_id clinic_customer"
    by (simp add: clinic_visit_def clinic_customer_def)
  have h4: "status clinic_visit \<noteq> Completed \<and> status clinic_visit \<noteq> Cancelled"
    by (simp add: clinic_visit_def)
  show ?thesis
    using cancel_by_owner [OF h1 h2 h3] h1 h2 h3 h4 by blast
qed

subsection \<open>Status update by a doctor\<close>

text \<open>
  C8. For a status update by a doctor on an existing appointment whose doctor field is
  not the caller's id, the operation fails with 401 (Unauthorized) and the store, and
  with it every field of the appointment, is unchanged.
\<close>

theorem status_update_by_other_doctor:
  assumes caller: "tok_role u = Doctor"
      and found: "findOne (\<lambda>x. appointment_id x = i) (appointments db) = Some a"
      and other: "doctor a \<noteq> tok_id u"
  shows "put_appointments_status (Token u) i s d t db =
           (db, json 401 (Msg ''Not authorized to update this appointment''))"
  using assms by (simp add: put_appointments_status_def route_Token isDoctor_def)

theorem status_update_by_other_doctor_witness:
  "tok_role clinic_other_doctor = Doctor \<and>
   findOne (\<lambda>x. appointment_id x = 9) (appointments clinic) = Some clinic_visit \<and>
   doctor clinic_visit \<noteq> tok_id clinic_other_doctor \<and>
   put_appointments_status (Token clinic_other_doctor) 9 (Some ''completed'') None None clinic =
     (clinic, json 401 (Msg ''Not authorized to update this appointment''))"
proof -
  have h1: "tok_role clinic_other_doctor = Doctor"
    by (simp add: clinic_other_doctor_def)
  have h2: "findOne (\<lambda>x. appointment_id x = 9) (appointments clinic) = Some clinic_visit"
    by (simp add: findOne_def clinic_defs)
  have h3: "doctor clinic_visit \<noteq> tok_id clinic_other_doctor"
    by (simp add: clinic_visit_def clinic_other_doctor_def)
  show ?thesis
    using status_update_by_other_doctor [OF h1 h2 h3] h1 h2 h3 by blast
qed

text \<open>
  C10. For a status update by the doctor of an existing appointment, the appointment
  found under the same id afterwards has the same customer, doctor, documents, notes,
  emergency flag, payment status, creation time and id. Its status, date and time are
  each unchanged when the request does not carry a truthy value for that field, so a
  request with only date and time leaves the status, and a request with only a status
  leaves date and time. When the update succeeds, every field that the request carries
  a truthy value for holds that value; when it does not succeed, the store is unchanged.
\<close>

theorem status_update_by_owner:
  assumes caller: "tok_role u = Doctor"
      and found: "findOne (\<lambda>x. appointment_id x = i) (appointments db) = Some a"
      and owner: "doctor a = tok_id u"
  shows "\<exists>a'. findOne (\<lambda>x. appointment_id x = i)
                 (appointments (fst (put_appointments_status (Token u) i s d t db))) = Some a' \<and>
              customer a' = customer a \<and> doctor a' = doctor a \<and>
              documents a' = documents a \<and> appointment_notes a' = appointment_notes a \<and>
              isEmergency a' = isEmergency a \<and> paymentStatus a' = paymentStatus a \<and>
              createdAt a' = createdAt a \<and> appointment_id a' = appointment_id a \<and>
              (\<not> truthy s \<longrightarrow> status a' = status a) \<and>
              (\<not> truthy d \<longrightarrow> date a' = date a) \<and>
              (\<not> truthy t \<longrightarrow> time a' = time a) \<and>
              (code (snd (put_appointments_status (Token u) i s d t db)) = 200 \<longrightarrow>
                 (\<forall>v. s = Some v \<and> v \<noteq> [] \<longrightarrow> cast_status v = Some (status a')) \<and>
                 (\<forall>v. d = Some v \<and> v \<noteq> [] \<longrightarrow> date a' = v) \<and>
                 (\<forall>v. t = Some v \<and> v \<noteq> [] \<longrightarrow> time a' = v)) \<and>
              (code (snd (put_appointments_status (Token u) i s d t db)) \<noteq> 200 \<longrightarrow>
                 fst (put_appointments_status (Token u) i s d t db) = db)"
proof (cases "assign_status s (status a)")
  case None
  then have "put_appointments_status (Token u) i s d t db = (db, server_error)"
    using caller found owner
    by (simp add: put_appointments_status_def route_Token isDoctor_def)
  moreover have "truthy s"
    using None truthy_assign_status [of s "status a"] by auto
  ultimately show ?thesis
    using found by (auto simp: server_error_def)
next
  case (Some st)
  let ?a' = "a\<lparr>status := st, date := assign d (date a), time := assign t (time a)\<rparr>"
  have aid: "appointment_id a = i" using found by (rule findOne_Some_holds)
  have res: "put_appointments_status (Token u) i s d t db =
               (save_appointment ?a' db,
                json 200 (MsgAppointment ''Appointment updated successfully'' ?a'))"
    using caller found owner Some
    by (simp add: put_appointments_status_def route_Token isDoctor_def Let_def)
  have upd: "findOne (\<lambda>x. appointment_id x = i) (appointments (save_appointment ?a' db)) =
               Some ?a'"
    using found aid by (intro findOne_save_appointment) simp_all
  have st1: "\<not> truthy s \<longrightarrow> st = status a"
    using Some truthy_assign_status [of s "status a"] by auto
  have st2: "\<forall>v. s = Some v \<and> v \<noteq> [] \<longrightarrow> cast_status v = Some st"
    using Some by (auto simp: assign_status_Some)
  show ?thesis
    using upd st1 st2
    by (intro exI [of _ ?a']) (auto simp: res json_def truthy_assign assign_Some)
qed

theorem status_update_by_owner_witness:
  "tok_role clinic_doctor = Doctor \<and>
   findOne (\<lambda>x. appointment_id x = 9) (appointments clinic) = Some clinic_visit \<and>
   doctor clinic_visit = tok_id clinic_doctor \<and>
   \<not> truthy None \<and>
   code (snd (put_appointments_status (Token clinic_doctor) 9 None (Some ''2025-07-01'')
                (Some ''09:30'') clinic)) = 200 \<and>
   findOne (\<lambda>x. appointment_id x = 9)
     (appointments (fst (put_appointments_status (Token clinic_doctor) 9 None
                           (Some ''2025-07-01'') (Some ''09:30'') clinic))) =
   Some (clinic_visit\<lparr>date := ''2025-07-01'', time := ''09:30''\<rparr>)"
proof -
  let ?r = "put_appointments_status (Token clinic_doctor) 9 None (Some ''2025-07-01'')
              (Some ''09:30'') clinic"
  have h1: "tok_role clinic_doctor = Doctor"
    by (simp add: clinic_doctor_def)
  have h2: "findOne (\<lambda>x. appointment_id x = 9) (appointments clinic) = Some clinic_visit"
    by (simp add: findOne_def clinic_defs)
  have h3: "doctor clinic_visit = tok_id clinic_doctor"
    by (simp add: clinic_visit_def clinic_doctor_def)
  have h4: "\<not> truthy None" by (simp add: truthy_def)
  have h5: "code (snd ?r) = 200"
    by (simp add: put_appointments_status_def route_def isDoctor_def findOne_def
                  assign_status_def json_def Let_def clinic_defs)
  obtain a' where a': "findOne (\<lambda>x. appointment_id x = 9) (appointments (fst ?r)) = Some a'"
    and frame: "customer a' = customer clinic_visit" "doctor a' = doctor clinic_visit"
      "documents a' = documents clinic_visit"
      "appointment_notes a' = appointment_notes clinic_visit"
      "isEmergency a' = isEmergency clinic_visit"
      "paymentStatus a' = paymentStatus clinic_visit"
      "createdAt a' = createdAt clinic_visit" "appointment_id a' = appointment_id clinic_visit"
    and kept: "\<not> truthy None \<longrightarrow> status a' = status clinic_visit"
    and set: "code (snd ?r) = 200 \<longrightarrow>
                (\<forall>v. Some ''2025-07-01'' = Some v \<and> v \<noteq> [] \<longrightarrow> date a' = v) \<and>
                (\<forall>v. Some ''09:30'' = Some v \<and> v \<noteq> [] \<longrightarrow> time a' = v)"
    using status_update_by_owner [OF h1 h2 h3, of None "Some ''2025-07-01''" "Some ''09:30''"]
    by blast
  have "date a' = ''2025-07-01''" "time a' = ''09:30''" "status a' = status clinic_visit"
    using set h5 kept h4 by simp_all
  with frame have "a' = clinic_visit\<lparr>date := ''2025-07-01'', time := ''09:30''\<rparr>"
    by simp
  with a' h1 h2 h3 h4 h5 show ?thesis by simp
qed

subsection \<open>No failed payment\<close>

lemma never_failed_save:
  "never_failed db \<Longrightarrow> paymentStatus a \<noteq> Failed \<Longrightarrow> never_failed (save_appointment a db)"
  using set_updateOne [of "\<lambda>x. appointment_id x = appointment_id a" a "appointments db"]
  by (auto simp: never_failed_def save_appointment_def)

lemma never_failed_found:
  "never_failed db \<Longrightarrow> findOne P (appointments db) = Some a \<Longrightarrow> paymentStatus a \<noteq> Failed"
  by (auto simp: never_failed_def dest: findOne_in_set)

lemma never_failed_route:
  assumes "\<And>u. never_failed (fst (handler u db))" and "never_failed db"
  shows "never_failed (fst (route cred gate handler db))"
  using assms by (auto simp: route_def split: sum.splits option.splits)

lemma never_failed_register:
  "never_failed db \<Longrightarrow> never_failed (fst (post_register hash now uid pid n e pw db))"
  by (auto simp: never_failed_def post_register_def Let_def split: option.splits)

lemma never_failed_login:
  "never_failed db \<Longrightarrow> never_failed (fst (post_login compare e pw db))"
  by (auto simp: post_login_def split: option.splits)

lemma never_failed_approve:
  "never_failed db \<Longrightarrow> never_failed (fst (put_doctors_approve cred t db))"
  unfolding put_doctors_approve_def
  by (rule never_failed_route)
     (auto simp: never_failed_def save_profile_def save_user_def Let_def split: option.splits)

lemma never_failed_delete:
  "never_failed db \<Longrightarrow> never_failed (fst (delete_users cred t db))"
  unfolding delete_users_def
  by (rule never_failed_route)
     (auto simp: never_failed_def deleteMany_def Let_def split: option.splits)

lemma never_failed_book:
  "never_failed db \<Longrightarrow>
   never_failed (fst (post_appointments cred now newId doctorId d t docs n e db))"
  unfolding post_appointments_def
  by (rule never_failed_route)
     (auto simp: never_failed_def Let_def split: option.splits)

lemma never_failed_cancel:
  "never_failed db \<Longrightarrow> never_failed (fst (put_appointments_cancel cred i db))"
  unfolding put_appointments_cancel_def
  by (rule never_failed_route)
     (auto simp: Let_def split: option.splits
           intro!: never_failed_save dest: never_failed_found)

text \<open>The branch that writes \<open>failed\<close> is not taken, because \<open>paymentSuccessful\<close> is true.\<close>

lemma never_failed_pay:
  "never_failed db \<Longrightarrow> never_failed (fst (post_appointments_pay cred i m db))"
  unfolding post_appointments_pay_def
  by (rule never_failed_route)
     (auto simp: Let_def paymentSuccessful_def split: option.splits
           intro!: never_failed_save)

lemma never_failed_status:
  "never_failed db \<Longrightarrow> never_failed (fst (put_appointments_status cred i s d t db))"
  unfolding put_appointments_status_def
  by (rule never_failed_route)
     (auto simp: Let_def split: option.splits
           intro!: never_failed_save dest: never_failed_found)

lemma never_failed_serve:
  "never_failed db \<Longrightarrow> never_failed (fst (serve hash compare r db))"
  by (cases r)
     (simp_all add: never_failed_register never_failed_login never_failed_approve
        never_failed_delete never_failed_book never_failed_cancel never_failed_pay
        never_failed_status)

lemma never_failed_run:
  "never_failed db \<Longrightarrow> never_failed (run hash compare rs db)"
  by (induction rs arbitrary: db) (simp_all add: never_failed_serve)

text \<open>
  C9. From a store with no appointments, after every sequence of requests to the
  routes (register, login, approve, delete, book, cancel, pay, status update), no
  appointment has the payment status failed.
\<close>

theorem paymentStatus_never_failed:
  assumes "appointments db = []"
  shows "\<forall>a \<in> set (appointments (run hash compare rs db)). paymentStatus a \<noteq> Failed"
proof -
  have "never_failed db" using assms by (simp add: never_failed_def)
  then have "never_failed (run hash compare rs db)" by (rule never_failed_run)
  then show ?thesis by (simp add: never_failed_def)
qed

theorem paymentStatus_never_failed_witness:
  "appointments clinic_opening = [] \<and>
   appointments
     (run clinic_hash clinic_compare
        [Book (Token clinic_customer) 7 9 1 (Some ''2025-06-24'') (Some ''10:00'') None None None,
         Pay (Token clinic_customer) 9 (Some ''upi'')]
        clinic_opening) =
     [clinic_visit\<lparr>paymentStatus := Paid, status := Scheduled\<rparr>] \<and>
   paymentStatus (clinic_visit\<lparr>paymentStatus := Paid, status := Scheduled\<rparr>) \<noteq> Failed"
proof -
  let ?rs = "[Book (Token clinic_customer) 7 9 1 (Some ''2025-06-24'') (Some ''10:00'')
                None None None,
              Pay (Token clinic_customer) 9 (Some ''upi'')]"
  have h: "appointments clinic_opening = []" by (simp add: clinic_opening_def)
  have ran: "appointments (run clinic_hash clinic_compare ?rs clinic_opening) =
               [clinic_visit\<lparr>paymentStatus := Paid, status := Scheduled\<rparr>]"
    by (simp add: post_appointments_def post_appointments_pay_def route_def isCustomer_def
                  findOne_def json_def Let_def paymentSuccessful_def save_appointment_def
                  clinic_defs)
  have "\<forall>a \<in> set (appointments (run clinic_hash clinic_compare ?rs clinic_opening)).
          paymentStatus a \<noteq> Failed"
    using paymentStatus_never_failed [OF h] .
  then have "paymentStatus (clinic_visit\<lparr>paymentStatus := Paid, status := Scheduled\<rparr>) \<noteq> Failed"
    unfolding ran by simp
  with h ran show ?thesis by blast
qed

subsection \<open>The unique indexes are kept\<close>

text \<open>
  The two uniqueness conditions that the deletion of a user relies on are part of
  \<open>unique_indexes\<close>, and every request keeps \<open>unique_indexes\<close> as long as the ids
  generated for new documents are fresh.
\<close>

lemma unique_indexes_route:
  assumes "\<And>u. unique_indexes (fst (handler u db))" and "unique_indexes db"
  shows "unique_indexes (fst (route cred gate handler db))"
  using assms by (auto simp: route_def split: sum.splits option.splits)

lemma unique_indexes_save_user:
  assumes "unique_indexes db" and "findOne (\<lambda>x. user_id x = i) (users db) = Some u"
      and "user_id u' = user_id u" and "username u' = username u" and "email u' = email u"
  shows "unique_indexes (save_user u' db)"
proof -
  have "user_id u = i" using assms(2) by (rule findOne_Some_holds)
  then have eq: "map k (updateOne (\<lambda>x. user_id x = user_id u') u' (users db)) = map k (users db)"
    if "k u' = k u" for k
    using assms(2,3) that by (intro map_updateOne_found [where x = u]) simp_all
  show ?thesis
    using assms eq [of user_id] eq [of username] eq [of email]
    by (simp add: unique_indexes_def save_user_def)
qed

lemma unique_indexes_save_profile:
  assumes "unique_indexes db" and "findOne P (doctorProfiles db) = Some p"
      and "profile_id p' = profile_id p" and "profile_user p' = profile_user p"
  shows "unique_indexes (save_profile p' db)"
proof -
  have "p \<in> set (doctorProfiles db)" using assms(2) by (rule findOne_in_set)
  then have "findOne (\<lambda>z. profile_id z = profile_id p) (doctorProfiles db) = Some p"
    using assms(1) by (intro find_by_distinct_key) (simp_all add: unique_indexes_def)
  then have eq: "map k (updateOne (\<lambda>x. profile_id x = profile_id p') p' (doctorProfiles db)) =
                 map k (doctorProfiles db)"
    if "k p' = k p" for k
    using assms(3) that by (intro map_updateOne_found [where x = p]) simp_all
  show ?thesis
    using assms eq [of profile_id] eq [of profile_user]
    by (simp add: unique_indexes_def save_profile_def)
qed

lemma unique_indexes_save_appointment:
  assumes "unique_indexes db" and "findOne (\<lambda>x. appointment_id x = i) (appointments db) = Some a"
      and "appointment_id a' = appointment_id a"
  shows "unique_indexes (save_appointment a' db)"
proof -
  have "appointment_id a = i" using assms(2) by (rule findOne_Some_holds)
  then have "map appointment_id
               (updateOne (\<lambda>x. appointment_id x = appointment_id a') a' (appointments db)) =
             map appointment_id (appointments db)"
    using assms(2,3) by (intro map_updateOne_found [where x = a]) simp_all
  then show ?thesis using assms(1) by (simp add: unique_indexes_def save_appointment_def)
qed

lemma doctorProfiles_save_user: "doctorProfiles (save_user u db) = doctorProfiles db"
  by (simp add: save_user_def)

lemma unique_indexes_register:
  assumes "unique_indexes db" and "fresh_ids (Register now uid pid n e pw) db"
  shows "unique_indexes (fst (post_register hash now uid pid n e pw db))"
proof (cases "findOne (\<lambda>x. Some (email x) = e \<or> Some (username x) = n) (users db)")
  case (Some a)
  then show ?thesis using assms(1) by (simp add: post_register_def)
next
  case None
  then have unused: "\<forall>x \<in> set (users db). Some (email x) \<noteq> e \<and> Some (username x) \<noteq> n"
    by (simp add: findOne_None_iff)
  show ?thesis
    using assms unused None
    by (auto simp: post_register_def unique_indexes_def Let_def split: option.splits)
qed

lemma unique_indexes_login:
  "unique_indexes db \<Longrightarrow> unique_indexes (fst (post_login compare e pw db))"
  by (auto simp: post_login_def split: option.splits)

lemma unique_indexes_approve:
  "unique_indexes db \<Longrightarrow> unique_indexes (fst (put_doctors_approve cred t db))"
  unfolding put_doctors_approve_def
  by (rule unique_indexes_route)
     (auto simp: Let_def doctorProfiles_save_user split: option.splits
           intro!: unique_indexes_save_profile unique_indexes_save_user)

lemma unique_indexes_delete:
  "unique_indexes db \<Longrightarrow> unique_indexes (fst (delete_users cred t db))"
  unfolding delete_users_def
  by (rule unique_indexes_route)
     (auto simp: Let_def deleteOne_distinct deleteMany_def unique_indexes_def
                 distinct_map_filter split: option.splits)

lemma unique_indexes_book:
  "unique_indexes db \<Longrightarrow> fresh_ids (Book cred now newId doctorId d t docs n e) db \<Longrightarrow>
   unique_indexes (fst (post_appointments cred now newId doctorId d t docs n e db))"
  unfolding post_appointments_def
  by (rule unique_indexes_route)
     (auto simp: unique_indexes_def Let_def split: option.splits)

lemma unique_indexes_cancel:
  "unique_indexes db \<Longrightarrow> unique_indexes (fst (put_appointments_cancel cred i db))"
  unfolding put_appointments_cancel_def
  by (rule unique_indexes_route)
     (auto simp: Let_def split: option.splits intro!: unique_indexes_save_appointment)

lemma unique_indexes_pay:
  "unique_indexes db \<Longrightarrow> unique_indexes (fst (post_appointments_pay cred i m db))"
  unfolding post_appointments_pay_def
  by (rule unique_indexes_route)
     (auto simp: Let_def split: option.splits intro!: unique_indexes_save_appointment)

lemma unique_indexes_status:
  "unique_indexes db \<Longrightarrow> unique_indexes (fst (put_appointments_status cred i s d t db))"
  unfolding put_appointments_status_def
  by (rule unique_indexes_route)
     (auto simp: Let_def split: option.splits intro!: unique_indexes_save_appointment)

lemma unique_indexes_serve:
  "unique_indexes db \<Longrightarrow> fresh_ids r db \<Longrightarrow> unique_indexes (fst (serve hash compare r db))"
  by (cases r)
     (simp_all add: unique_indexes_register unique_indexes_login unique_indexes_approve
        unique_indexes_delete unique_indexes_book unique_indexes_cancel unique_indexes_pay
        unique_indexes_status del: fresh_ids.simps)

lemma unique_indexes_clinic: "unique_indexes clinic"
  by (simp add: unique_indexes_def clinic_defs)

end
